theory Spec2Isabelle
  imports Main "HOL-Library.Word"
begin

section \<open>The chunk iterator of \<^verbatim>\<open>be/src/storage/chunk_iterator.h\<close>\<close>

subsection \<open>Collaborators declared outside the header\<close>

text \<open>
  \<^verbatim>\<open>Status\<close> is only forward-declared in the header. The constructors below are the
  outcomes the header produces or documents: \<^verbatim>\<open>Status::OK()\<close>,
  \<^verbatim>\<open>Status::NotSupported(msg)\<close>, the \<^verbatim>\<open>EndOfFile\<close> of the comment on
  \<^verbatim>\<open>get_next\<close>, and any other failure of a concrete iterator.
\<close>

datatype Status = OK | EndOfFile | NotSupported string | Failure string

text \<open>
  Modelled from the spec: \<^verbatim>\<open>Field\<close> (column/field.h) is not among the sources. A field
  has a column id (\<^verbatim>\<open>field->id()\<close>, an unsigned 32-bit \<^verbatim>\<open>ColumnId\<close>); everything else
  it carries (name, logical type, flags) is the payload \<open>'m\<close>.
\<close>

record 'm Field =
  id_field :: "32 word"
  meta :: 'm

text \<open>
  Modelled from the spec: \<^verbatim>\<open>Schema\<close> (column/schema.h) is not among the sources. It is
  an ordered sequence of fields; \<^verbatim>\<open>append\<close> adds one field at the end,
  \<^verbatim>\<open>num_fields\<close> counts them, \<^verbatim>\<open>fields\<close> enumerates them in order, and
  \<^verbatim>\<open>reserve\<close> only sets the capacity.
\<close>

type_synonym 'm Schema = "'m Field list"

definition num_fields :: "'m Schema \<Rightarrow> nat" where
  "num_fields s = length s"

definition fields_schema :: "'m Schema \<Rightarrow> 'm Field list" where
  "fields_schema s = s"

definition append_schema :: "'m Schema \<Rightarrow> 'm Field \<Rightarrow> 'm Schema" where
  "append_schema s f = s @ [f]"

definition reserve :: "'m Schema \<Rightarrow> nat \<Rightarrow> 'm Schema" where
  "reserve s n = s"

text \<open>
  \<^verbatim>\<open>ColumnIdToGlobalDictMap\<close> (runtime/global_dict/types.h) maps a column id to its
  dictionary; \<^verbatim>\<open>dict_maps.count(cid)\<close> is nonzero exactly when the id has an entry.
\<close>

type_synonym 'd ColumnIdToGlobalDictMap = "32 word \<rightharpoonup> 'd"

text \<open>
  \<^verbatim>\<open>DCHECK\<close> is the debug assertion of the logging library (glog): in a build with
  debug checks it halts the process when its condition is false, and otherwise it is
  compiled out. Whether the checks are compiled in is the parameter \<open>dcheck_on\<close> of
  the operations that use the macro; a halted call is the left injection.
\<close>

datatype fatal = DCheckFailed

subsection \<open>The state of a \<^verbatim>\<open>ChunkIterator\<close>\<close>

record 'm ChunkIterator =
  m_schema :: "'m Schema"
  m_encoded_schema :: "'m Schema"
  m_output_schema :: "'m Schema"
  m_is_init_output_schema :: bool
  m_chunk_size :: "32 word"

text \<open>
  The two constructors. \<^verbatim>\<open>DEFAULT_CHUNK_SIZE\<close> is defined outside the header and is a
  parameter of the one-argument constructor. The chunk size is a C++ \<^verbatim>\<open>int\<close>, kept as
  its 32 bits; nothing in the header computes with it.
\<close>

definition ChunkIterator1 :: "32 word \<Rightarrow> 'm Schema \<Rightarrow> 'm ChunkIterator" where
  "ChunkIterator1 DEFAULT_CHUNK_SIZE schema0 =
     \<lparr>m_schema = schema0, m_encoded_schema = [], m_output_schema = [],
      m_is_init_output_schema = False, m_chunk_size = DEFAULT_CHUNK_SIZE\<rparr>"

definition ChunkIterator2 :: "'m Schema \<Rightarrow> 32 word \<Rightarrow> 'm ChunkIterator" where
  "ChunkIterator2 schema0 chunk_size0 =
     \<lparr>m_schema = schema0, m_encoded_schema = [], m_output_schema = [],
      m_is_init_output_schema = False, m_chunk_size = chunk_size0\<rparr>"

definition schema :: "'m ChunkIterator \<Rightarrow> 'm Schema" where
  "schema it = m_schema it"

definition encoded_schema :: "'m ChunkIterator \<Rightarrow> 'm Schema" where
  "encoded_schema it =
     (if num_fields (m_encoded_schema it) = 0 then m_schema it else m_encoded_schema it)"

definition output_schema :: "'m ChunkIterator \<Rightarrow> 'm Schema" where
  "output_schema it =
     (if m_is_init_output_schema it then m_output_schema it else encoded_schema it)"

definition chunk_size :: "'m ChunkIterator \<Rightarrow> 32 word" where
  "chunk_size it = m_chunk_size it"

definition merged_rows :: "'m ChunkIterator \<Rightarrow> 64 word" where
  "merged_rows it = 0"

subsection \<open>\<^verbatim>\<open>init_encoded_schema\<close>\<close>

text \<open>
  The loop over \<^verbatim>\<open>schema().fields()\<close>; the last argument is \<^verbatim>\<open>_encoded_schema\<close> as
  built so far. \<^verbatim>\<open>Field::convert_to_dict_field\<close> is defined outside the header and is
  the parameter \<open>convert_to_dict_field\<close>.
\<close>

fun init_encoded_schema_loop ::
  "('m Field \<Rightarrow> 'm Field) \<Rightarrow> 'd ColumnIdToGlobalDictMap \<Rightarrow> 'm Field list \<Rightarrow> 'm Schema
     \<Rightarrow> 'm Schema" where
  "init_encoded_schema_loop convert_to_dict_field dict_maps [] enc = enc"
| "init_encoded_schema_loop convert_to_dict_field dict_maps (field # rest) enc =
     init_encoded_schema_loop convert_to_dict_field dict_maps rest
       (let cid = id_field field in
        if dict_maps cid \<noteq> None then append_schema enc (convert_to_dict_field field)
        else append_schema enc field)"

definition init_encoded_schema ::
  "('m Field \<Rightarrow> 'm Field) \<Rightarrow> 'd ColumnIdToGlobalDictMap \<Rightarrow> 'm ChunkIterator
     \<Rightarrow> Status \<times> 'm ChunkIterator" where
  "init_encoded_schema convert_to_dict_field dict_maps it =
     (let enc0 = reserve (m_encoded_schema it) (num_fields (schema it));
          enc = init_encoded_schema_loop convert_to_dict_field dict_maps
                  (fields_schema (schema it)) enc0
      in (OK, it\<lparr>m_encoded_schema := enc\<rparr>))"

subsection \<open>\<^verbatim>\<open>init_output_schema\<close>\<close>

fun init_output_schema_loop ::
  "32 word set \<Rightarrow> 'm Field list \<Rightarrow> 'm Schema \<Rightarrow> 'm Schema" where
  "init_output_schema_loop unused_output_column_ids [] out = out"
| "init_output_schema_loop unused_output_column_ids (field # rest) out =
     init_output_schema_loop unused_output_column_ids rest
       (let cid = id_field field in
        if cid \<notin> unused_output_column_ids then append_schema out field else out)"

definition init_output_schema ::
  "bool \<Rightarrow> 32 word set \<Rightarrow> 'm ChunkIterator \<Rightarrow> fatal + (Status \<times> 'm ChunkIterator)" where
  "init_output_schema dcheck_on unused_output_column_ids it =
     (if m_is_init_output_schema it then Inr (OK, it)
      else
        let out = init_output_schema_loop unused_output_column_ids
                    (fields_schema (encoded_schema it)) (m_output_schema it)
        in if dcheck_on \<and> \<not> (num_fields out > 0) then Inl DCheckFailed
           else Inr (OK, it\<lparr>m_output_schema := out, m_is_init_output_schema := True\<rparr>))"

subsection \<open>The fetch operations\<close>

text \<open>
  \<^verbatim>\<open>do_get_next(Chunk*)\<close> is pure virtual: the concrete iterator supplies it. It is a
  parameter \<open>do_get_next\<close> taking the concrete iterator's state \<open>'s\<close> and the chunk
  handle \<open>'c\<close> and returning the status, the chunk as it leaves it, and the new state.
  A pointer to a vector that may be null is an \<open>option\<close>; the element type
  \<^verbatim>\<open>RowSourceMask\<close> (storage/row_source_mask.h) is the type variable \<open>'k\<close>.
\<close>

type_synonym rowid_buffer = "32 word list option"

type_synonym 'k mask_buffer = "'k list option"

definition do_get_next_rowid ::
  "'s \<Rightarrow> 'c \<Rightarrow> rowid_buffer \<Rightarrow> Status \<times> 'c \<times> rowid_buffer \<times> 's" where
  "do_get_next_rowid s chunk rowid =
     (NotSupported ''Chunk* chunk, vector<uint32_t>* rowid) not supported'', chunk, rowid, s)"

definition do_get_next_masks ::
  "('s \<Rightarrow> 'c \<Rightarrow> Status \<times> 'c \<times> 's) \<Rightarrow> 's \<Rightarrow> 'c \<Rightarrow> 'k mask_buffer
     \<Rightarrow> Status \<times> 'c \<times> 'k mask_buffer \<times> 's" where
  "do_get_next_masks do_get_next s chunk source_masks =
     (if source_masks = None then
        (case do_get_next s chunk of (st, chunk', s') \<Rightarrow> (st, chunk', source_masks, s'))
      else (NotSupported ''get chunk with sources not supported'', chunk, source_masks, s))"

text \<open>
  The public \<^verbatim>\<open>get_next\<close> overloads call the virtual \<^verbatim>\<open>do_get_next\<close> and then
  \<^verbatim>\<open>DCHECK_CHUNK(chunk)\<close>. The macro is defined in column/chunk.h: \<open>check_chunk\<close> is
  the test it makes on the chunk, and it halts only in a build with debug checks.
\<close>

definition get_next ::
  "bool \<Rightarrow> ('c \<Rightarrow> bool) \<Rightarrow> ('s \<Rightarrow> 'c \<Rightarrow> Status \<times> 'c \<times> 's) \<Rightarrow> 's \<Rightarrow> 'c
     \<Rightarrow> fatal + (Status \<times> 'c \<times> 's)" where
  "get_next dcheck_on check_chunk do_get_next s chunk =
     (case do_get_next s chunk of (st, chunk', s') \<Rightarrow>
        if dcheck_on \<and> \<not> check_chunk chunk' then Inl DCheckFailed
        else Inr (st, chunk', s'))"

definition get_next_rowid ::
  "bool \<Rightarrow> ('c \<Rightarrow> bool)
     \<Rightarrow> ('s \<Rightarrow> 'c \<Rightarrow> rowid_buffer \<Rightarrow> Status \<times> 'c \<times> rowid_buffer \<times> 's)
     \<Rightarrow> 's \<Rightarrow> 'c \<Rightarrow> rowid_buffer \<Rightarrow> fatal + (Status \<times> 'c \<times> rowid_buffer \<times> 's)" where
  "get_next_rowid dcheck_on check_chunk do_get_next_r s chunk rowid =
     (case do_get_next_r s chunk rowid of (st, chunk', rowid', s') \<Rightarrow>
        if dcheck_on \<and> \<not> check_chunk chunk' then Inl DCheckFailed
        else Inr (st, chunk', rowid', s'))"

definition get_next_masks ::
  "bool \<Rightarrow> ('c \<Rightarrow> bool)
     \<Rightarrow> ('s \<Rightarrow> 'c \<Rightarrow> 'k mask_buffer \<Rightarrow> Status \<times> 'c \<times> 'k mask_buffer \<times> 's)
     \<Rightarrow> 's \<Rightarrow> 'c \<Rightarrow> 'k mask_buffer \<Rightarrow> fatal + (Status \<times> 'c \<times> 'k mask_buffer \<times> 's)" where
  "get_next_masks dcheck_on check_chunk do_get_next_m s chunk source_masks =
     (case do_get_next_m s chunk source_masks of (st, chunk', masks', s') \<Rightarrow>
        if dcheck_on \<and> \<not> check_chunk chunk' then Inl DCheckFailed
        else Inr (st, chunk', masks', s'))"

subsection \<open>The timed wrapper\<close>

text \<open>
  Modelled from the spec: the header only declares \<^verbatim>\<open>timed_chunk_iterator\<close>; its body
  and the wrapper class are not among the sources. Following the spec, the wrapper holds
  the inner iterator and the external counter, forwards \<^verbatim>\<open>schema()\<close>,
  \<^verbatim>\<open>chunk_size()\<close>, \<^verbatim>\<open>close()\<close> and \<^verbatim>\<open>merged_rows()\<close> to the inner iterator, and
  around every fetch measures the elapsed time and adds it to the counter. The inner
  iterator is given by its public operations over its state \<open>'s\<close> (its fetches are the
  public \<^verbatim>\<open>get_next\<close> overloads, which may halt); the time a call took is the
  argument \<open>elapsed\<close>, and the counter is the value it holds.
\<close>

record ('s, 'c, 'k, 'm) iterator_ops =
  op_schema :: "'s \<Rightarrow> 'm Schema"
  op_chunk_size :: "'s \<Rightarrow> 32 word"
  op_close :: "'s \<Rightarrow> 's"
  op_merged_rows :: "'s \<Rightarrow> 64 word"
  op_get_next :: "'s \<Rightarrow> 'c \<Rightarrow> fatal + (Status \<times> 'c \<times> 's)"
  op_get_next_rowid ::
    "'s \<Rightarrow> 'c \<Rightarrow> rowid_buffer \<Rightarrow> fatal + (Status \<times> 'c \<times> rowid_buffer \<times> 's)"
  op_get_next_masks ::
    "'s \<Rightarrow> 'c \<Rightarrow> 'k mask_buffer \<Rightarrow> fatal + (Status \<times> 'c \<times> 'k mask_buffer \<times> 's)"

record 's timed_state =
  iter :: 's
  counter :: int

definition timed_chunk_iterator :: "'s \<Rightarrow> int \<Rightarrow> 's timed_state" where
  "timed_chunk_iterator it counter0 = \<lparr>iter = it, counter = counter0\<rparr>"

definition timed_schema :: "('s, 'c, 'k, 'm) iterator_ops \<Rightarrow> 's timed_state \<Rightarrow> 'm Schema" where
  "timed_schema ops t = op_schema ops (iter t)"

definition timed_chunk_size :: "('s, 'c, 'k, 'm) iterator_ops \<Rightarrow> 's timed_state \<Rightarrow> 32 word" where
  "timed_chunk_size ops t = op_chunk_size ops (iter t)"

definition timed_close :: "('s, 'c, 'k, 'm) iterator_ops \<Rightarrow> 's timed_state \<Rightarrow> 's timed_state" where
  "timed_close ops t = t\<lparr>iter := op_close ops (iter t)\<rparr>"

definition timed_merged_rows :: "('s, 'c, 'k, 'm) iterator_ops \<Rightarrow> 's timed_state \<Rightarrow> 64 word" where
  "timed_merged_rows ops t = op_merged_rows ops (iter t)"

definition timed_get_next ::
  "('s, 'c, 'k, 'm) iterator_ops \<Rightarrow> nat \<Rightarrow> 's timed_state \<Rightarrow> 'c
     \<Rightarrow> fatal + (Status \<times> 'c \<times> 's timed_state)" where
  "timed_get_next ops elapsed t chunk =
     (case op_get_next ops (iter t) chunk of
        Inl e \<Rightarrow> Inl e
      | Inr (st, chunk', s') \<Rightarrow>
          Inr (st, chunk', \<lparr>iter = s', counter = counter t + int elapsed\<rparr>))"

definition timed_get_next_rowid ::
  "('s, 'c, 'k, 'm) iterator_ops \<Rightarrow> nat \<Rightarrow> 's timed_state \<Rightarrow> 'c \<Rightarrow> rowid_buffer
     \<Rightarrow> fatal + (Status \<times> 'c \<times> rowid_buffer \<times> 's timed_state)" where
  "timed_get_next_rowid ops elapsed t chunk rowid =
     (case op_get_next_rowid ops (iter t) chunk rowid of
        Inl e \<Rightarrow> Inl e
      | Inr (st, chunk', rowid', s') \<Rightarrow>
          Inr (st, chunk', rowid', \<lparr>iter = s', counter = counter t + int elapsed\<rparr>))"

definition timed_get_next_masks ::
  "('s, 'c, 'k, 'm) iterator_ops \<Rightarrow> nat \<Rightarrow> 's timed_state \<Rightarrow> 'c \<Rightarrow> 'k mask_buffer
     \<Rightarrow> fatal + (Status \<times> 'c \<times> 'k mask_buffer \<times> 's timed_state)" where
  "timed_get_next_masks ops elapsed t chunk source_masks =
     (case op_get_next_masks ops (iter t) chunk source_masks of
        Inl e \<Rightarrow> Inl e
      | Inr (st, chunk', masks', s') \<Rightarrow>
          Inr (st, chunk', masks', \<lparr>iter = s', counter = counter t + int elapsed\<rparr>))"

section \<open>Properties\<close>

subsection \<open>The loops and the two initializers as list functions\<close>

lemma init_encoded_schema_loop_map:
  "init_encoded_schema_loop conv dict_maps fs enc =
     enc @ map (\<lambda>f. if dict_maps (id_field f) \<noteq> None then conv f else f) fs"
  by (induction fs arbitrary: enc) (simp_all add: append_schema_def Let_def)

lemma init_output_schema_loop_filter:
  "init_output_schema_loop unused fs out =
     out @ filter (\<lambda>f. id_field f \<notin> unused) fs"
  by (induction fs arbitrary: out) (simp_all add: append_schema_def Let_def)

lemma init_encoded_schema_eq:
  "init_encoded_schema conv dict_maps it =
     (OK, it\<lparr>m_encoded_schema := m_encoded_schema it @
        map (\<lambda>f. if dict_maps (id_field f) \<noteq> None then conv f else f) (m_schema it)\<rparr>)"
  by (simp add: init_encoded_schema_def init_encoded_schema_loop_map reserve_def
      fields_schema_def schema_def)

lemma encoded_schema_of_map:
  "m_encoded_schema it = map g (m_schema it) \<Longrightarrow> encoded_schema it = map g (m_schema it)"
  by (simp add: encoded_schema_def num_fields_def)

lemma init_output_schema_eq:
  "init_output_schema dcheck_on unused it =
     (if m_is_init_output_schema it then Inr (OK, it)
      else if dcheck_on \<and>
              m_output_schema it @ filter (\<lambda>f. id_field f \<notin> unused) (encoded_schema it) = []
      then Inl DCheckFailed
      else Inr (OK, it\<lparr>m_output_schema :=
                         m_output_schema it @
                         filter (\<lambda>f. id_field f \<notin> unused) (encoded_schema it),
                       m_is_init_output_schema := True\<rparr>))"
  by (simp add: init_output_schema_def init_output_schema_loop_filter fields_schema_def
      num_fields_def Let_def)

text \<open>
  Both constructors leave the encoded schema and the output schema empty and the output
  projection uninitialized, and \<^verbatim>\<open>init_encoded_schema\<close> only writes the encoded schema.
\<close>

lemma constructed_state:
  "m_encoded_schema (ChunkIterator2 schema0 n) = []"
  "m_output_schema (ChunkIterator2 schema0 n) = []"
  "\<not> m_is_init_output_schema (ChunkIterator2 schema0 n)"
  "m_encoded_schema (ChunkIterator1 n schema0) = []"
  "m_output_schema (ChunkIterator1 n schema0) = []"
  "\<not> m_is_init_output_schema (ChunkIterator1 n schema0)"
  by (simp_all add: ChunkIterator1_def ChunkIterator2_def)

lemma init_encoded_schema_frame:
  "m_schema (snd (init_encoded_schema conv dict_maps it)) = m_schema it"
  "m_output_schema (snd (init_encoded_schema conv dict_maps it)) = m_output_schema it"
  "m_is_init_output_schema (snd (init_encoded_schema conv dict_maps it)) =
     m_is_init_output_schema it"
  "m_chunk_size (snd (init_encoded_schema conv dict_maps it)) = m_chunk_size it"
  by (simp_all add: init_encoded_schema_eq)

text \<open>
  The public \<^verbatim>\<open>get_next\<close> overloads return what the virtual call returned, unless the
  debug check of the chunk halts.
\<close>

lemma get_next_passes_on:
  "do_get_next s chunk = (st, chunk', s') \<Longrightarrow>
   get_next dcheck_on check_chunk do_get_next s chunk =
     (if dcheck_on \<and> \<not> check_chunk chunk' then Inl DCheckFailed else Inr (st, chunk', s'))"
  by (simp add: get_next_def)

subsection \<open>Dictionary encoding\<close>

text \<open>
  C1. On an iterator whose \<^verbatim>\<open>_encoded_schema\<close> is still empty (as every constructor
  leaves it), \<^verbatim>\<open>init_encoded_schema\<close> returns OK, leaves the base schema alone, and
  makes the encoded schema the base schema with each field whose id has an entry in the
  dictionary map replaced by its converted form and every other field kept: same number
  of fields, same positions. With an empty dictionary map the encoded schema is the base
  schema.
\<close>

theorem init_encoded_schema_preserves_shape:
  assumes fresh: "m_encoded_schema it = []"
  shows "fst (init_encoded_schema conv dict_maps it) = OK
    \<and> schema (snd (init_encoded_schema conv dict_maps it)) = schema it
    \<and> encoded_schema (snd (init_encoded_schema conv dict_maps it)) =
        map (\<lambda>f. if dict_maps (id_field f) \<noteq> None then conv f else f) (schema it)
    \<and> num_fields (encoded_schema (snd (init_encoded_schema conv dict_maps it))) =
        num_fields (schema it)
    \<and> (\<forall>i < num_fields (schema it).
         fields_schema (encoded_schema (snd (init_encoded_schema conv dict_maps it))) ! i =
           (if dict_maps (id_field (fields_schema (schema it) ! i)) \<noteq> None
            then conv (fields_schema (schema it) ! i)
            else fields_schema (schema it) ! i))
    \<and> (dict_maps = Map.empty \<longrightarrow>
         encoded_schema (snd (init_encoded_schema conv dict_maps it)) = schema it)"
proof -
  let ?g = "\<lambda>f. if dict_maps (id_field f) \<noteq> None then conv f else f"
  let ?it' = "snd (init_encoded_schema conv dict_maps it)"
  have m: "m_encoded_schema ?it' = map ?g (m_schema ?it')" and s: "m_schema ?it' = m_schema it"
    using fresh by (simp_all add: init_encoded_schema_eq)
  have e: "encoded_schema ?it' = map ?g (schema it)"
    using encoded_schema_of_map [OF m] s by (simp add: schema_def)
  have st: "fst (init_encoded_schema conv dict_maps it) = OK"
    by (simp add: init_encoded_schema_eq)
  have sch: "schema ?it' = schema it"
    using s by (simp add: schema_def)
  have len: "num_fields (encoded_schema ?it') = num_fields (schema it)"
    by (simp add: e num_fields_def)
  have nth: "\<forall>i < num_fields (schema it).
         fields_schema (encoded_schema ?it') ! i =
           (if dict_maps (id_field (fields_schema (schema it) ! i)) \<noteq> None
            then conv (fields_schema (schema it) ! i)
            else fields_schema (schema it) ! i)"
    by (simp add: e num_fields_def fields_schema_def)
  have emp: "dict_maps = Map.empty \<longrightarrow> encoded_schema ?it' = schema it"
  proof
    assume d: "dict_maps = Map.empty"
    have "map ?g (schema it) = schema it"
      by (simp add: d)
    with e show "encoded_schema ?it' = schema it"
      by simp
  qed
  from st sch e len nth emp show ?thesis by blast
qed

theorem init_encoded_schema_preserves_shape_witness:
  "encoded_schema (snd (init_encoded_schema (\<lambda>f. f\<lparr>meta := ''INT''\<rparr>) [2 \<mapsto> ()]
      (ChunkIterator2 [\<lparr>id_field = 1, meta = ''a''\<rparr>, \<lparr>id_field = 2, meta = ''b''\<rparr>,
                       \<lparr>id_field = 3, meta = ''c''\<rparr>] 4096)))
   = [\<lparr>id_field = 1, meta = ''a''\<rparr>, \<lparr>id_field = 2, meta = ''INT''\<rparr>,
      \<lparr>id_field = 3, meta = ''c''\<rparr>]"
  using init_encoded_schema_preserves_shape
    [of "ChunkIterator2 [\<lparr>id_field = 1, meta = ''a''\<rparr>, \<lparr>id_field = 2, meta = ''b''\<rparr>,
                       \<lparr>id_field = 3, meta = ''c''\<rparr>] 4096" "\<lambda>f. f\<lparr>meta := ''INT''\<rparr>" "[2 \<mapsto> ()]"]
  by (simp add: ChunkIterator2_def schema_def)

text \<open>
  C9. \<^verbatim>\<open>init_encoded_schema\<close> has no guard against a second call. Starting from an
  iterator whose \<^verbatim>\<open>_encoded_schema\<close> is empty, two calls with any two dictionary maps
  both return OK, and the second appends its own round of fields (the base fields,
  encoded under the second map) after those of the first: the encoded schema then has
  twice as many fields as the base schema.
\<close>

theorem init_encoded_schema_twice_doubles:
  assumes fresh: "m_encoded_schema it = []"
  shows "fst (init_encoded_schema conv d1 it) = OK
    \<and> fst (init_encoded_schema conv d2 (snd (init_encoded_schema conv d1 it))) = OK
    \<and> m_encoded_schema (snd (init_encoded_schema conv d2 (snd (init_encoded_schema conv d1 it)))) =
        map (\<lambda>f. if d1 (id_field f) \<noteq> None then conv f else f) (schema it) @
        map (\<lambda>f. if d2 (id_field f) \<noteq> None then conv f else f) (schema it)
    \<and> num_fields (encoded_schema
          (snd (init_encoded_schema conv d2 (snd (init_encoded_schema conv d1 it))))) =
        2 * num_fields (schema it)"
  using fresh
  by (simp add: init_encoded_schema_eq schema_def encoded_schema_def num_fields_def)

theorem init_encoded_schema_twice_doubles_witness:
  "m_encoded_schema (snd (init_encoded_schema (\<lambda>f. f\<lparr>meta := ''INT''\<rparr>) [1 \<mapsto> ()]
     (snd (init_encoded_schema (\<lambda>f. f\<lparr>meta := ''INT''\<rparr>) [2 \<mapsto> ()]
       (ChunkIterator2 [\<lparr>id_field = 1, meta = ''a''\<rparr>, \<lparr>id_field = 2, meta = ''b''\<rparr>] 4096)))))
   = [\<lparr>id_field = 1, meta = ''a''\<rparr>, \<lparr>id_field = 2, meta = ''INT''\<rparr>,
      \<lparr>id_field = 1, meta = ''INT''\<rparr>, \<lparr>id_field = 2, meta = ''b''\<rparr>]"
  using init_encoded_schema_twice_doubles
    [of "ChunkIterator2 [\<lparr>id_field = 1, meta = ''a''\<rparr>, \<lparr>id_field = 2, meta = ''b''\<rparr>] 4096"
        "\<lambda>f. f\<lparr>meta := ''INT''\<rparr>" "[2 \<mapsto> ()]" "[1 \<mapsto> ()]"]
  by (simp add: ChunkIterator2_def schema_def)

subsection \<open>The output schema\<close>

text \<open>
  C4. \<^verbatim>\<open>output_schema()\<close> is the output schema once the output projection has been
  initialized; otherwise the encoded schema if it has at least one field; otherwise the
  base schema.
\<close>

theorem output_schema_fallback:
  "output_schema it =
     (if m_is_init_output_schema it then m_output_schema it
      else if num_fields (m_encoded_schema it) > 0 then m_encoded_schema it
      else schema it)"
  by (simp add: output_schema_def encoded_schema_def schema_def)

theorem output_schema_fallback_witness:
  "output_schema \<lparr>m_schema = [\<lparr>id_field = 1, meta = ''a''\<rparr>, \<lparr>id_field = 2, meta = ''b''\<rparr>],
      m_encoded_schema = [\<lparr>id_field = 1, meta = ''a''\<rparr>, \<lparr>id_field = 2, meta = ''INT''\<rparr>],
      m_output_schema = [\<lparr>id_field = 2, meta = ''INT''\<rparr>],
      m_is_init_output_schema = True, m_chunk_size = 4096\<rparr> = [\<lparr>id_field = 2, meta = ''INT''\<rparr>]
   \<and> output_schema \<lparr>m_schema = [\<lparr>id_field = 1, meta = ''a''\<rparr>, \<lparr>id_field = 2, meta = ''b''\<rparr>],
      m_encoded_schema = [\<lparr>id_field = 1, meta = ''a''\<rparr>, \<lparr>id_field = 2, meta = ''INT''\<rparr>],
      m_output_schema = [],
      m_is_init_output_schema = False, m_chunk_size = 4096\<rparr>
     = [\<lparr>id_field = 1, meta = ''a''\<rparr>, \<lparr>id_field = 2, meta = ''INT''\<rparr>]
   \<and> output_schema \<lparr>m_schema = [\<lparr>id_field = 1, meta = ''a''\<rparr>, \<lparr>id_field = 2, meta = ''b''\<rparr>],
      m_encoded_schema = [], m_output_schema = [],
      m_is_init_output_schema = False, m_chunk_size = 4096\<rparr>
     = [\<lparr>id_field = 1, meta = ''a''\<rparr>, \<lparr>id_field = 2, meta = ''b''\<rparr>]"
  by (simp add: output_schema_fallback num_fields_def schema_def)

subsection \<open>Output projection\<close>

text \<open>
  C3. First call of \<^verbatim>\<open>init_output_schema\<close> (projection not initialized,
  \<^verbatim>\<open>_output_schema\<close> empty): the call returns OK and the output schema is the encoded
  schema filtered to the fields whose id is not in the unused set, in the encoded schema's
  order. The one case with no result is a build with debug checks in which no field
  survives: there the \<^verbatim>\<open>DCHECK\<close> halts.
\<close>

theorem init_output_schema_first_call:
  assumes uninit: "\<not> m_is_init_output_schema it" and empty: "m_output_schema it = []"
  shows "(\<not> (dcheck_on \<and>
             filter (\<lambda>f. id_field f \<notin> unused) (fields_schema (encoded_schema it)) = []) \<longrightarrow>
           (\<exists>it'. init_output_schema dcheck_on unused it = Inr (OK, it')
              \<and> output_schema it' =
                  filter (\<lambda>f. id_field f \<notin> unused) (fields_schema (encoded_schema it))
              \<and> encoded_schema it' = encoded_schema it \<and> schema it' = schema it))
    \<and> (dcheck_on \<and>
          filter (\<lambda>f. id_field f \<notin> unused) (fields_schema (encoded_schema it)) = [] \<longrightarrow>
          init_output_schema dcheck_on unused it = Inl DCheckFailed)"
  using uninit empty
  by (simp add: init_output_schema_eq fields_schema_def output_schema_def encoded_schema_def
      schema_def)

theorem init_output_schema_first_call_witness:
  "\<exists>it'. init_output_schema True {1}
     (snd (init_encoded_schema (\<lambda>f. f\<lparr>meta := ''INT''\<rparr>) [2 \<mapsto> ()]
        (ChunkIterator2 [\<lparr>id_field = 1, meta = ''a''\<rparr>, \<lparr>id_field = 2, meta = ''b''\<rparr>,
                         \<lparr>id_field = 3, meta = ''c''\<rparr>] 4096))) = Inr (OK, it')
     \<and> output_schema it' = [\<lparr>id_field = 2, meta = ''INT''\<rparr>, \<lparr>id_field = 3, meta = ''c''\<rparr>]"
proof -
  let ?it = "snd (init_encoded_schema (\<lambda>f. f\<lparr>meta := ''INT''\<rparr>) [2 \<mapsto> ()]
        (ChunkIterator2 [\<lparr>id_field = 1, meta = ''a''\<rparr>, \<lparr>id_field = 2, meta = ''b''\<rparr>,
                         \<lparr>id_field = 3, meta = ''c''\<rparr>] 4096))"
  have it: "?it = \<lparr>m_schema = [\<lparr>id_field = 1, meta = ''a''\<rparr>, \<lparr>id_field = 2, meta = ''b''\<rparr>,
                    \<lparr>id_field = 3, meta = ''c''\<rparr>],
        m_encoded_schema = [\<lparr>id_field = 1, meta = ''a''\<rparr>, \<lparr>id_field = 2, meta = ''INT''\<rparr>,
                            \<lparr>id_field = 3, meta = ''c''\<rparr>],
        m_output_schema = [],
        m_is_init_output_schema = False, m_chunk_size = 4096\<rparr>"
    by (simp add: init_encoded_schema_eq ChunkIterator2_def)
  have u: "\<not> m_is_init_output_schema ?it" and e: "m_output_schema ?it = []"
    by (simp_all add: it)
  have enc: "encoded_schema ?it = [\<lparr>id_field = 1, meta = ''a''\<rparr>, \<lparr>id_field = 2, meta = ''INT''\<rparr>,
                            \<lparr>id_field = 3, meta = ''c''\<rparr>]"
    by (simp add: it encoded_schema_def num_fields_def)
  from init_output_schema_first_call [OF u e, of True "{1}"]
  obtain it' where "init_output_schema True {1} ?it = Inr (OK, it')"
    and "output_schema it' = [\<lparr>id_field = 2, meta = ''INT''\<rparr>, \<lparr>id_field = 3, meta = ''c''\<rparr>]"
    by (auto simp add: enc fields_schema_def)
  then show ?thesis by blast
qed

text \<open>
  C2. Once a call of \<^verbatim>\<open>init_output_schema\<close> has returned, every later call, with any
  set of unused column ids, returns OK and leaves the whole iterator state, the output
  schema included, as that call left it.
\<close>

theorem init_output_schema_idempotent:
  assumes first: "init_output_schema dcheck_on unused1 it = Inr (st1, it1)"
  shows "init_output_schema dcheck_on unused2 it1 = Inr (OK, it1)
    \<and> output_schema it1 = m_output_schema it1"
proof -
  have "m_is_init_output_schema it1"
    using first by (auto simp: init_output_schema_eq split: if_splits)
  then show ?thesis
    by (simp add: init_output_schema_def output_schema_def)
qed

theorem init_output_schema_idempotent_witness:
  "init_output_schema True {2, 3}
     \<lparr>m_schema = [\<lparr>id_field = 1, meta = ()\<rparr>, \<lparr>id_field = 2, meta = ()\<rparr>],
      m_encoded_schema = [], m_output_schema = [\<lparr>id_field = 2, meta = ()\<rparr>],
      m_is_init_output_schema = True, m_chunk_size = 4096\<rparr>
   = Inr (OK,
     \<lparr>m_schema = [\<lparr>id_field = 1, meta = ()\<rparr>, \<lparr>id_field = 2, meta = ()\<rparr>],
      m_encoded_schema = [], m_output_schema = [\<lparr>id_field = 2, meta = ()\<rparr>],
      m_is_init_output_schema = True, m_chunk_size = 4096\<rparr>)"
proof -
  have "init_output_schema True {1}
          (ChunkIterator2 [\<lparr>id_field = 1, meta = ()\<rparr>, \<lparr>id_field = 2, meta = ()\<rparr>] 4096)
        = Inr (OK,
          \<lparr>m_schema = [\<lparr>id_field = 1, meta = ()\<rparr>, \<lparr>id_field = 2, meta = ()\<rparr>],
           m_encoded_schema = [], m_output_schema = [\<lparr>id_field = 2, meta = ()\<rparr>],
           m_is_init_output_schema = True, m_chunk_size = 4096\<rparr>)"
    by (simp add: init_output_schema_eq ChunkIterator2_def encoded_schema_def num_fields_def)
  from init_output_schema_idempotent [OF this, of "{2, 3}"] show ?thesis
    by simp
qed

text \<open>
  C7. The claim that every call whose unused set covers all field ids halts does not hold:
  with the debug checks compiled out the call returns OK with an empty output schema, and
  on an iterator whose projection is already initialized the call returns OK before any
  check, also with debug checks.
\<close>

theorem init_output_schema_empty_projection_counterexample:
  "init_output_schema False {1} (ChunkIterator2 [\<lparr>id_field = 1, meta = ''a''\<rparr>] 4096)
     = Inr (OK, \<lparr>m_schema = [\<lparr>id_field = 1, meta = ''a''\<rparr>], m_encoded_schema = [],
                 m_output_schema = [], m_is_init_output_schema = True, m_chunk_size = 4096\<rparr>)
   \<and> init_output_schema True {} (ChunkIterator2 [\<lparr>id_field = 1, meta = ''a''\<rparr>] 4096)
     = Inr (OK, \<lparr>m_schema = [\<lparr>id_field = 1, meta = ''a''\<rparr>], m_encoded_schema = [],
                 m_output_schema = [\<lparr>id_field = 1, meta = ''a''\<rparr>],
                 m_is_init_output_schema = True, m_chunk_size = 4096\<rparr>)
   \<and> init_output_schema True {1}
        \<lparr>m_schema = [\<lparr>id_field = 1, meta = ''a''\<rparr>], m_encoded_schema = [],
         m_output_schema = [\<lparr>id_field = 1, meta = ''a''\<rparr>],
         m_is_init_output_schema = True, m_chunk_size = 4096\<rparr>
     = Inr (OK, \<lparr>m_schema = [\<lparr>id_field = 1, meta = ''a''\<rparr>], m_encoded_schema = [],
                 m_output_schema = [\<lparr>id_field = 1, meta = ''a''\<rparr>],
                 m_is_init_output_schema = True, m_chunk_size = 4096\<rparr>)"
  by (simp add: init_output_schema_eq ChunkIterator2_def encoded_schema_def num_fields_def)

text \<open>
  C7, as amended. On an iterator whose output projection is not initialized, in a build
  with debug checks, \<^verbatim>\<open>init_output_schema\<close> halts on its \<^verbatim>\<open>DCHECK\<close> exactly when the
  unused set covers the id of every field of the encoded schema. With the checks compiled
  out, such a call returns OK and the output schema is empty.
\<close>

theorem init_output_schema_halts_in_debug_build:
  assumes uninit: "\<not> m_is_init_output_schema it" and empty: "m_output_schema it = []"
  shows "((init_output_schema True unused it = Inl DCheckFailed) =
           (\<forall>f \<in> set (fields_schema (encoded_schema it)). id_field f \<in> unused))
    \<and> ((\<forall>f \<in> set (fields_schema (encoded_schema it)). id_field f \<in> unused) \<longrightarrow>
           (\<exists>it'. init_output_schema False unused it = Inr (OK, it') \<and> output_schema it' = []))"
  using uninit empty
  by (auto simp add: init_output_schema_eq fields_schema_def output_schema_def filter_empty_conv)

theorem init_output_schema_halts_in_debug_build_witness:
  "init_output_schema True {1, 2}
     (ChunkIterator2 [\<lparr>id_field = 1, meta = ''a''\<rparr>, \<lparr>id_field = 2, meta = ''b''\<rparr>] 4096)
   = Inl DCheckFailed"
proof -
  let ?it = "ChunkIterator2 [\<lparr>id_field = 1, meta = ''a''\<rparr>, \<lparr>id_field = 2, meta = ''b''\<rparr>] 4096"
  have u: "\<not> m_is_init_output_schema ?it" and e: "m_output_schema ?it = []"
    by (simp_all add: ChunkIterator2_def)
  have enc: "encoded_schema ?it = [\<lparr>id_field = 1, meta = ''a''\<rparr>, \<lparr>id_field = 2, meta = ''b''\<rparr>]"
    by (simp add: ChunkIterator2_def encoded_schema_def num_fields_def)
  show ?thesis
    using init_output_schema_halts_in_debug_build [OF u e, of "{1, 2}"]
    by (simp add: enc fields_schema_def)
qed

subsection \<open>The status of schema initialization\<close>

text \<open>
  C10. The claim that both operations return OK for every state and argument does not
  hold: in a build with debug checks, a first projection that drops every field halts
  instead of returning.
\<close>

theorem schema_initialization_returns_counterexample:
  "init_output_schema True {1} (ChunkIterator2 [\<lparr>id_field = 1, meta = ''a''\<rparr>] 4096)
     = Inl DCheckFailed"
  by (simp add: init_output_schema_eq ChunkIterator2_def encoded_schema_def num_fields_def)

text \<open>
  C10, as amended. \<^verbatim>\<open>init_encoded_schema\<close> returns OK for every state and argument.
  \<^verbatim>\<open>init_output_schema\<close> has no branch returning another status: it halts exactly
  when the debug checks are on, the projection is not initialized and no field is left in
  the output schema, and in every other case it returns OK.
\<close>

theorem schema_initialization_status:
  "fst (init_encoded_schema conv dict_maps it) = OK
   \<and> ((init_output_schema dcheck_on unused it = Inl DCheckFailed) =
        (dcheck_on \<and> \<not> m_is_init_output_schema it \<and> m_output_schema it = [] \<and>
         (\<forall>f \<in> set (fields_schema (encoded_schema it)). id_field f \<in> unused)))
   \<and> (init_output_schema dcheck_on unused it \<noteq> Inl DCheckFailed \<longrightarrow>
        (\<exists>it'. init_output_schema dcheck_on unused it = Inr (OK, it')))"
  by (auto simp add: init_encoded_schema_eq init_output_schema_eq fields_schema_def
      filter_empty_conv)

theorem schema_initialization_status_witness:
  "\<exists>it'. init_output_schema True {1}
     (ChunkIterator2 [\<lparr>id_field = 1, meta = ''a''\<rparr>, \<lparr>id_field = 2, meta = ''b''\<rparr>] 4096)
   = Inr (OK, it')"
proof -
  let ?it = "ChunkIterator2 [\<lparr>id_field = 1, meta = ''a''\<rparr>, \<lparr>id_field = 2, meta = ''b''\<rparr>] 4096"
  have enc: "encoded_schema ?it = [\<lparr>id_field = 1, meta = ''a''\<rparr>, \<lparr>id_field = 2, meta = ''b''\<rparr>]"
    by (simp add: ChunkIterator2_def encoded_schema_def num_fields_def)
  have "init_output_schema True {1} ?it \<noteq> Inl DCheckFailed"
    using schema_initialization_status
      [of "id :: string Field \<Rightarrow> string Field" "Map.empty :: unit ColumnIdToGlobalDictMap" ?it True "{1}"]
    by (simp add: enc fields_schema_def)
  with schema_initialization_status
      [of "id :: string Field \<Rightarrow> string Field" "Map.empty :: unit ColumnIdToGlobalDictMap" ?it True "{1}"]
  show ?thesis by blast
qed

subsection \<open>The default fetch variants\<close>

text \<open>
  C5. The default \<^verbatim>\<open>do_get_next(chunk, rowid)\<close> returns NotSupported for every state,
  chunk and row-id buffer, and touches none of them. Through the public \<^verbatim>\<open>get_next\<close>
  the caller receives that status whenever the debug check of the chunk does not halt.
\<close>

theorem do_get_next_rowid_not_supported:
  "do_get_next_rowid s chunk rowid =
     (NotSupported ''Chunk* chunk, vector<uint32_t>* rowid) not supported'', chunk, rowid, s)
   \<and> ((dcheck_on \<longrightarrow> check_chunk chunk) \<longrightarrow>
        get_next_rowid dcheck_on check_chunk do_get_next_rowid s chunk rowid =
          Inr (NotSupported ''Chunk* chunk, vector<uint32_t>* rowid) not supported'',
               chunk, rowid, s))"
  by (simp add: do_get_next_rowid_def get_next_rowid_def)

theorem do_get_next_rowid_not_supported_witness:
  "get_next_rowid True (\<lambda>c. c = []) do_get_next_rowid (0::nat) ([]::nat list) (Some [7, 8]) =
     Inr (NotSupported ''Chunk* chunk, vector<uint32_t>* rowid) not supported'',
          [], Some [7, 8], 0)"
  using do_get_next_rowid_not_supported
    [of "0::nat" "[]::nat list" "Some [7, 8]" True "\<lambda>c. c = []"]
  by simp

text \<open>
  C6. The default \<^verbatim>\<open>do_get_next(chunk, source_masks)\<close>: with a null mask buffer it is
  the plain \<^verbatim>\<open>do_get_next(chunk)\<close> (same status, chunk and state), and so is the public
  \<^verbatim>\<open>get_next\<close>; with a mask buffer it returns NotSupported and leaves the chunk, the
  buffer and the state as they were.
\<close>

theorem do_get_next_masks_default:
  "do_get_next_masks do_get_next s chunk (None :: 'k mask_buffer) =
     (fst (do_get_next s chunk), fst (snd (do_get_next s chunk)), None,
      snd (snd (do_get_next s chunk)))
   \<and> do_get_next_masks do_get_next s chunk (Some (masks :: 'k list)) =
       (NotSupported ''get chunk with sources not supported'', chunk, Some masks, s)
   \<and> get_next_masks dcheck_on check_chunk (do_get_next_masks do_get_next) s chunk
         (None :: 'k mask_buffer) =
       (case get_next dcheck_on check_chunk do_get_next s chunk of
          Inl e \<Rightarrow> Inl e
        | Inr (st, chunk', s') \<Rightarrow> Inr (st, chunk', None, s'))
   \<and> ((dcheck_on \<longrightarrow> check_chunk chunk) \<longrightarrow>
        get_next_masks dcheck_on check_chunk (do_get_next_masks do_get_next) s chunk (Some masks) =
          Inr (NotSupported ''get chunk with sources not supported'', chunk, Some masks, s))"
  by (simp add: do_get_next_masks_def get_next_masks_def get_next_def split: prod.splits)

theorem do_get_next_masks_default_witness:
  "do_get_next_masks (\<lambda>s c. if s = 0 then (EndOfFile, c, s) else (OK, c @ [s], s - 1))
     (3::nat) [] (None :: bool list option) = (OK, [3], None, 2)
   \<and> get_next_masks True (\<lambda>c. True)
       (do_get_next_masks (\<lambda>s c. if s = 0 then (EndOfFile, c, s) else (OK, c @ [s], s - 1)))
       (3::nat) [] (Some [True]) =
       Inr (NotSupported ''get chunk with sources not supported'', [], Some [True], 3)"
  using do_get_next_masks_default
    [of "\<lambda>s c. if s = 0 then (EndOfFile, c, s) else (OK, c @ [s], s - 1)" "3::nat" "[]"
        "[True]" True "\<lambda>c. True"]
  by simp

subsection \<open>Transparency of the timed wrapper\<close>

text \<open>
  C8. The timed wrapper answers \<^verbatim>\<open>schema()\<close>, \<^verbatim>\<open>chunk_size()\<close> and
  \<^verbatim>\<open>merged_rows()\<close> as the inner iterator does, closes the inner iterator, and each of
  its fetch variants returns the inner iterator's status, chunk, row ids and masks and
  leaves the inner iterator in the state the inner call produced; the only other change
  is the elapsed time added to the counter.
\<close>

theorem timed_chunk_iterator_transparent:
  "iter (timed_chunk_iterator it counter0) = it
   \<and> counter (timed_chunk_iterator it counter0) = counter0
   \<and> timed_schema ops t = op_schema ops (iter t)
   \<and> timed_chunk_size ops t = op_chunk_size ops (iter t)
   \<and> timed_merged_rows ops t = op_merged_rows ops (iter t)
   \<and> timed_close ops t = \<lparr>iter = op_close ops (iter t), counter = counter t\<rparr>
   \<and> (op_get_next ops (iter t) chunk = Inr (st, chunk', s') \<longrightarrow>
        timed_get_next ops elapsed t chunk =
          Inr (st, chunk', \<lparr>iter = s', counter = counter t + int elapsed\<rparr>))
   \<and> (op_get_next_rowid ops (iter t) chunk rowid = Inr (st, chunk', rowid', s') \<longrightarrow>
        timed_get_next_rowid ops elapsed t chunk rowid =
          Inr (st, chunk', rowid', \<lparr>iter = s', counter = counter t + int elapsed\<rparr>))
   \<and> (op_get_next_masks ops (iter t) chunk source_masks = Inr (st, chunk', masks', s') \<longrightarrow>
        timed_get_next_masks ops elapsed t chunk source_masks =
          Inr (st, chunk', masks', \<lparr>iter = s', counter = counter t + int elapsed\<rparr>))
   \<and> (op_get_next ops (iter t) chunk = Inl e \<longrightarrow>
        timed_get_next ops elapsed t chunk = Inl e)
   \<and> (op_get_next_rowid ops (iter t) chunk rowid = Inl e \<longrightarrow>
        timed_get_next_rowid ops elapsed t chunk rowid = Inl e)
   \<and> (op_get_next_masks ops (iter t) chunk source_masks = Inl e \<longrightarrow>
        timed_get_next_masks ops elapsed t chunk source_masks = Inl e)"
  by (simp add: timed_chunk_iterator_def timed_schema_def timed_chunk_size_def
      timed_merged_rows_def timed_close_def timed_get_next_def timed_get_next_rowid_def
      timed_get_next_masks_def)

theorem timed_chunk_iterator_transparent_witness:
  "timed_get_next
     \<lparr>op_schema = (\<lambda>s. ([] :: unit Schema)), op_chunk_size = (\<lambda>s. 4096),
      op_close = (\<lambda>s. 0), op_merged_rows = (\<lambda>s. 0),
      op_get_next = get_next True (\<lambda>c. c \<noteq> [])
        (\<lambda>s c. if s = 0 then (EndOfFile, c, s) else (OK, c @ [s], s - 1)),
      op_get_next_rowid = get_next_rowid True (\<lambda>c. c \<noteq> []) do_get_next_rowid,
      op_get_next_masks = get_next_masks True (\<lambda>c. c \<noteq> [])
        (do_get_next_masks (\<lambda>s c. if s = 0 then (EndOfFile, c, s) else (OK, c @ [s], s - 1))
          :: nat \<Rightarrow> nat list \<Rightarrow> bool mask_buffer \<Rightarrow> Status \<times> nat list \<times> bool mask_buffer \<times> nat)\<rparr>
     5 (timed_chunk_iterator (3::nat) 100) [] = Inr (OK, [3], \<lparr>iter = 2, counter = 105\<rparr>)"
  using timed_chunk_iterator_transparent
    [of "3::nat" 100
     "\<lparr>op_schema = (\<lambda>s. ([] :: unit Schema)), op_chunk_size = (\<lambda>s. 4096),
      op_close = (\<lambda>s. 0), op_merged_rows = (\<lambda>s. 0),
      op_get_next = get_next True (\<lambda>c. c \<noteq> [])
        (\<lambda>s c. if s = 0 then (EndOfFile, c, s) else (OK, c @ [s], s - 1)),
      op_get_next_rowid = get_next_rowid True (\<lambda>c. c \<noteq> []) do_get_next_rowid,
      op_get_next_masks = get_next_masks True (\<lambda>c. c \<noteq> [])
        (do_get_next_masks (\<lambda>s c. if s = 0 then (EndOfFile, c, s) else (OK, c @ [s], s - 1))
          :: nat \<Rightarrow> nat list \<Rightarrow> bool mask_buffer \<Rightarrow> Status \<times> nat list \<times> bool mask_buffer \<times> nat)\<rparr>"
     "timed_chunk_iterator (3::nat) 100" "[]" OK "[3]" 2 5]
  by (simp add: timed_chunk_iterator_def get_next_def)

end
